theory Spec2Isabelle
  imports Main "HOL-Library.AList"
begin

section \<open>Model store of the vocal-remover API: \<open>src/utils/get_models.py\<close>\<close>

text \<open>
  The module caches downloadable model weights on disk.  Its four functions are
  \<open>download_model\<close>, \<open>model_exists_in_package\<close>, \<open>get_model_path\<close> and
  \<open>download_all_models\<close>.  They are embedded below over

  \<^item> the string functions of Python they call (\<open>str.split\<close>, \<open>str.endswith\<close>,
    \<open>posixpath.join\<close>, \<open>posixpath.splitext\<close>), written out as HOL functions;
  \<^item> an operating system and network that is a parameter: what \<open>os.stat\<close> reports for
    a path, what \<open>os.listdir\<close> lists, and what \<open>os.makedirs\<close>,
    \<open>urllib.request.urlretrieve\<close> and \<open>json.load(open(...))\<close> do to the world.

  Exceptions are values of type \<open>exn\<close>; a function that can raise returns \<open>exn + 'a\<close>.
  Python's \<open>None\<close> result is \<open>None\<close> of an option type.  Paths follow POSIX
  (\<open>os.path\<close> is \<open>posixpath\<close>).
\<close>

subsection \<open>Python strings\<close>

definition startswith :: "string \<Rightarrow> string \<Rightarrow> bool" where
  "startswith s p = (take (length p) s = p)"

definition endswith :: "string \<Rightarrow> string \<Rightarrow> bool" where
  "endswith s x = (length x \<le> length s \<and> drop (length s - length x) s = x)"

text \<open>\<open>s.split(c)\<close> for a one-character separator: never the empty list.\<close>

fun split_on :: "char \<Rightarrow> string \<Rightarrow> string list" where
  "split_on c [] = [[]]"
| "split_on c (x # xs) =
     (if x = c then [] # split_on c xs
      else (case split_on c xs of
              [] \<Rightarrow> [[x]]
            | y # ys \<Rightarrow> (x # y) # ys))"

text \<open>\<open>s.rfind(c)\<close>: the last index of \<open>c\<close>, or \<open>-1\<close>.\<close>

fun rfind_from :: "char \<Rightarrow> string \<Rightarrow> int \<Rightarrow> int \<Rightarrow> int" where
  "rfind_from c [] i found = found"
| "rfind_from c (x # xs) i found = rfind_from c xs (i + 1) (if x = c then i else found)"

definition rfind :: "char \<Rightarrow> string \<Rightarrow> int" where
  "rfind c s = rfind_from c s 0 (- 1)"

subsection \<open>\<open>os.path.join\<close> and \<open>os.path.splitext\<close> (posixpath)\<close>

text \<open>
  One round of the loop of \<open>posixpath.join\<close>: an absolute component replaces the
  path, an empty path or one ending in a slash is extended directly, anything else gets a
  separating slash.
\<close>

definition join_step :: "string \<Rightarrow> string \<Rightarrow> string" where
  "join_step path b =
     (if startswith b ''/'' then b
      else if path = [] \<or> endswith path ''/'' then path @ b
      else path @ ''/'' @ b)"

definition os_path_join :: "string \<Rightarrow> string list \<Rightarrow> string" where
  "os_path_join a p = foldl join_step a p"

text \<open>
  The loop of \<open>genericpath._splitext\<close> that skips the leading dots of the file name:
  it answers whether some character from \<open>filenameIndex\<close> up to \<open>dotIndex\<close>
  (exclusive) is not a dot.
\<close>

function has_non_dot :: "string \<Rightarrow> int \<Rightarrow> int \<Rightarrow> bool" where
  "has_non_dot p filenameIndex dotIndex =
     (if filenameIndex < dotIndex then
        (if take 1 (drop (nat filenameIndex) p) \<noteq> ''.'' then True
         else has_non_dot p (filenameIndex + 1) dotIndex)
      else False)"
  by pat_completeness auto
termination
  by (relation "measure (\<lambda>(p, f, d). nat (d - f))") auto

declare has_non_dot.simps [simp del]

definition os_path_splitext :: "string \<Rightarrow> string \<times> string" where
  "os_path_splitext p =
     (let sepIndex = rfind CHR ''/'' p;
          dotIndex = rfind CHR ''.'' p
      in if dotIndex > sepIndex \<and> has_non_dot p (sepIndex + 1) dotIndex
         then (take (nat dotIndex) p, drop (nat dotIndex) p)
         else (p, []))"

subsection \<open>The world outside the program\<close>

datatype node = File | Dir | Special

datatype exn =
    KeyError string
  | UnboundLocalError string
  | FileNotFoundError string
  | NotADirectoryError string
  | OSError string
  | URLError string

text \<open>
  The manifest \<open>models.json\<close>: architecture \<open>\<rightarrow>\<close> model name \<open>\<rightarrow>\<close> model data, where the
  model data is a dictionary whose key \<open>model_path\<close> holds the list of URLs.  The two
  outer dictionaries are association lists in insertion order, which is the order
  \<open>dict.items()\<close> iterates in; a dictionary has no key twice.
\<close>

type_synonym model_data = "string \<rightharpoonup> string list"
type_synonym manifest = "(string \<times> (string \<times> model_data) list) list"

text \<open>
  The platform the module runs on, over a type \<open>'w\<close> of worlds (file system and
  network at one moment):
  \<^item> \<open>uvr_path\<close> is the module constant \<open>Path(__file__).parent.parent\<close>;
  \<^item> \<open>stat w p\<close> is what \<open>os.stat(p)\<close> finds: nothing, a regular file, a directory
    or something else;
  \<^item> \<open>dir_entries w p\<close> are the names in directory \<open>p\<close>, in the order of
    \<open>os.listdir\<close>;
  \<^item> \<open>makedirs w p\<close> gives the world after \<open>os.makedirs(p)\<close> and the exception it
    raised, if any;
  \<^item> \<open>urlretrieve w url p\<close> gives the world after the transfer and the exception it
    raised, if any;
  \<^item> \<open>load_json w p\<close> is \<open>json.load(open(p, "r"))\<close>.
\<close>

record 'w platform =
  uvr_path :: string
  stat :: "'w \<Rightarrow> string \<Rightarrow> node option"
  dir_entries :: "'w \<Rightarrow> string \<Rightarrow> string list"
  makedirs :: "'w \<Rightarrow> string \<Rightarrow> exn option \<times> 'w"
  urlretrieve :: "'w \<Rightarrow> string \<Rightarrow> string \<Rightarrow> exn option \<times> 'w"
  load_json :: "'w \<Rightarrow> string \<Rightarrow> exn + manifest"

definition os_path_exists :: "'w platform \<Rightarrow> 'w \<Rightarrow> string \<Rightarrow> bool" where
  "os_path_exists S w p = (stat S w p \<noteq> None)"

definition os_path_isfile :: "'w platform \<Rightarrow> 'w \<Rightarrow> string \<Rightarrow> bool" where
  "os_path_isfile S w p = (stat S w p = Some File)"

definition os_path_isdir :: "'w platform \<Rightarrow> 'w \<Rightarrow> string \<Rightarrow> bool" where
  "os_path_isdir S w p = (stat S w p = Some Dir)"

text \<open>\<open>os.listdir\<close> raises on a path that is missing or is not a directory.\<close>

definition os_listdir :: "'w platform \<Rightarrow> 'w \<Rightarrow> string \<Rightarrow> exn + string list" where
  "os_listdir S w p =
     (case stat S w p of
        None \<Rightarrow> Inl (FileNotFoundError p)
      | Some Dir \<Rightarrow> Inr (dir_entries S w p)
      | Some _ \<Rightarrow> Inl (NotADirectoryError p))"

subsection \<open>\<open>model_exists_in_package\<close>\<close>

text \<open>Lines 72-73: the name is cut at its first dot when it has one.\<close>

definition strip_extension :: "string \<Rightarrow> string" where
  "strip_extension model_name =
     (if length (split_on CHR ''.'' model_name) > 1
      then hd (split_on CHR ''.'' model_name)
      else model_name)"

text \<open>
  Lines 31 and 76: the conventional directory
  \<open><uvr_path>/models_dir/<model_arch>/weights/<model_name>\<close>.
\<close>

definition weights_dir :: "'w platform \<Rightarrow> string \<Rightarrow> string \<Rightarrow> string" where
  "weights_dir S model_arch model_name =
     os_path_join (uvr_path S) [''models_dir'', model_arch, ''weights'', model_name]"

text \<open>Lines 79-82: the loop over the file list, false at the first missing file.\<close>

fun all_files_present :: "'w platform \<Rightarrow> 'w \<Rightarrow> string \<Rightarrow> string list \<Rightarrow> bool" where
  "all_files_present S w save_path [] = True"
| "all_files_present S w save_path (file # files) =
     (if \<not> os_path_isfile S w (os_path_join save_path [file]) then False
      else all_files_present S w save_path files)"

definition model_exists_in_package ::
  "'w platform \<Rightarrow> 'w \<Rightarrow> string \<Rightarrow> string \<Rightarrow> string option \<Rightarrow> string list option \<Rightarrow> bool" where
  "model_exists_in_package S w model_name model_arch save_path files =
     (let model_name' = strip_extension model_name;
          save_path' = (case save_path of
                          None \<Rightarrow> weights_dir S model_arch model_name'
                        | Some sp \<Rightarrow> sp)
      in if (case files of None \<Rightarrow> False
              | Some fs \<Rightarrow> \<not> all_files_present S w save_path' fs) then False
         else if os_path_exists S w save_path' then True
         else False)"

subsection \<open>\<open>get_model_path\<close>\<close>

definition has_model_extension :: "string \<Rightarrow> bool" where
  "has_model_extension file =
     (endswith file ''.onnx'' \<or> endswith file ''.pth'' \<or> endswith file ''.ckpt'')"

text \<open>Lines 111-114: the first entry of the subdirectory with a known model extension.\<close>

fun search_subdir :: "string \<Rightarrow> string list \<Rightarrow> string option" where
  "search_subdir potential_model_subdir [] = None"
| "search_subdir potential_model_subdir (file # rest) =
     (if has_model_extension file then Some (os_path_join potential_model_subdir [file])
      else search_subdir potential_model_subdir rest)"

text \<open>Lines 119-123: the first regular file of the directory whose base name is the name.\<close>

fun scan_dir :: "'w platform \<Rightarrow> 'w \<Rightarrow> string \<Rightarrow> string \<Rightarrow> string list \<Rightarrow> string option" where
  "scan_dir S w model_dir model_name [] = None"
| "scan_dir S w model_dir model_name (file # rest) =
     (if os_path_isfile S w (os_path_join model_dir [file])
         \<and> fst (os_path_splitext file) = model_name
      then Some (os_path_join model_dir [file])
      else scan_dir S w model_dir model_name rest)"

definition scan_model_dir :: "'w platform \<Rightarrow> 'w \<Rightarrow> string \<Rightarrow> string \<Rightarrow> exn + string option" where
  "scan_model_dir S w model_dir model_name =
     (case os_listdir S w model_dir of
        Inl e \<Rightarrow> Inl e
      | Inr listing \<Rightarrow> Inr (scan_dir S w model_dir model_name listing))"

definition get_model_path :: "'w platform \<Rightarrow> 'w \<Rightarrow> string \<Rightarrow> string \<Rightarrow> exn + string option" where
  "get_model_path S w model_name model_dir =
     (if \<not> os_path_exists S w model_dir then Inr None
      else
        let extension = snd (os_path_splitext model_name) in
        if extension \<noteq> [] then
          (let path = os_path_join model_dir [model_name] in
           if os_path_exists S w path \<and> os_path_isfile S w path then Inr (Some path)
           else Inr None)
        else
          let potential_model_subdir = os_path_join model_dir [model_name] in
          if os_path_isdir S w potential_model_subdir then
            (case os_listdir S w potential_model_subdir of
               Inl e \<Rightarrow> Inl e
             | Inr listing \<Rightarrow>
                 (case search_subdir potential_model_subdir listing of
                    Some found \<Rightarrow> Inr (Some found)
                  | None \<Rightarrow> scan_model_dir S w model_dir model_name))
          else scan_model_dir S w model_dir model_name)"

subsection \<open>\<open>download_model\<close>\<close>

text \<open>
  What the program does to the outside is recorded as a list of events, in order: every
  call of \<open>urlretrieve\<close> with its URL, its local path and the exception it raised (if
  any), and every message handed to the logger.
\<close>

datatype log_message =
    AutoLoading string
  | AlreadyExists string string
  | Downloaded string "string list"
  | FailedDownload string "string list" exn

datatype event =
    Retrieve string string "exn option"
  | LogError log_message
  | LogInfo log_message

text \<open>Lines 23-28: the URLs given by the caller, or those of the manifest file.\<close>

definition resolve_model_path ::
  "'w platform \<Rightarrow> 'w \<Rightarrow> string \<Rightarrow> string \<Rightarrow> string list option \<Rightarrow> exn + string list" where
  "resolve_model_path S w model_name model_arch model_path =
     (case model_path of
        Some urls \<Rightarrow> Inr urls
      | None \<Rightarrow>
          (case load_json S w (os_path_join (uvr_path S) [''models_dir'', ''models.json'']) of
             Inl e \<Rightarrow> Inl e
           | Inr models \<Rightarrow>
               (case map_of models model_arch of
                  None \<Rightarrow> Inl (KeyError model_arch)
                | Some arch_models \<Rightarrow>
                    (case map_of arch_models model_name of
                       None \<Rightarrow> Inl (KeyError model_name)
                     | Some model_data \<Rightarrow>
                         (case model_data ''model_path'' of
                            None \<Rightarrow> Inl (KeyError ''model_path'')
                          | Some urls \<Rightarrow> Inr urls)))))"

text \<open>Lines 33-34: the target directory is created when nothing is at its path.\<close>

definition ensure_dir :: "'w platform \<Rightarrow> 'w \<Rightarrow> string \<Rightarrow> exn option \<times> 'w" where
  "ensure_dir S w save_path =
     (if \<not> os_path_exists S w save_path then makedirs S w save_path else (None, w))"

text \<open>Line 36: the last component of each URL.\<close>

definition file_names :: "string list \<Rightarrow> string list" where
  "file_names model_path = map (\<lambda>path. last (split_on CHR ''/'' path)) model_path"

text \<open>
  Lines 44-48, the loop inside \<open>try\<close>: the exception of the first transfer that
  fails ends the loop and is handed to the \<open>except\<close> clause.
\<close>

fun download_files ::
  "'w platform \<Rightarrow> 'w \<Rightarrow> bool \<Rightarrow> string \<Rightarrow> string list \<Rightarrow> string
     \<Rightarrow> (string \<times> string) list \<Rightarrow> exn option \<times> 'w \<times> event list" where
  "download_files S w logger model_name model_path save_path [] = (None, w, [])"
| "download_files S w logger model_name model_path save_path ((file_name, path) # rest) =
     (let local_file_path = os_path_join save_path [file_name] in
      case urlretrieve S w path local_file_path of
        (Some e, w') \<Rightarrow> (Some e, w', [Retrieve path local_file_path (Some e)])
      | (None, w') \<Rightarrow>
          (case download_files S w' logger model_name model_path save_path rest of
             (r, w'', evs) \<Rightarrow>
               (r, w'',
                Retrieve path local_file_path None
                  # (if logger then [LogInfo (Downloaded model_name model_path)] else [])
                  @ evs)))"

definition download_model ::
  "'w platform \<Rightarrow> 'w \<Rightarrow> string \<Rightarrow> string \<Rightarrow> string list option \<Rightarrow> string option \<Rightarrow> bool
     \<Rightarrow> (exn + string option) \<times> 'w \<times> event list" where
  "download_model S w model_name model_arch model_path save_path logger =
     (let ev0 = (if model_path = None \<and> logger then [LogError (AutoLoading model_name)] else [])
      in
      case resolve_model_path S w model_name model_arch model_path of
        Inl e \<Rightarrow> (Inl e, w, ev0)
      | Inr model_path' \<Rightarrow>
          let save_path' = (case save_path of
                              None \<Rightarrow> weights_dir S model_arch model_name
                            | Some sp \<Rightarrow> sp)
          in
          (case ensure_dir S w save_path' of
             (Some e, w1) \<Rightarrow> (Inl e, w1, ev0)
           | (None, w1) \<Rightarrow>
               let files = file_names model_path' in
               if model_exists_in_package S w1 model_name model_arch None (Some files) then
                 (Inr (Some save_path'), w1,
                  ev0 @ (if logger then [LogInfo (AlreadyExists model_name save_path')] else []))
               else
                 (case download_files S w1 logger model_name model_path' save_path'
                         (zip files model_path') of
                    (None, w2, evs) \<Rightarrow> (Inr (Some save_path'), w2, ev0 @ evs)
                  | (Some e, w2, evs) \<Rightarrow>
                      (Inr None, w2,
                       ev0 @ evs
                         @ (if logger then [LogError (FailedDownload model_name model_path' e)]
                            else [])))))"

subsection \<open>\<open>download_all_models\<close>\<close>

text \<open>
  The result dictionaries are association lists; \<open>d[k] = v\<close> is \<open>AList.update k v d\<close>,
  which replaces the value of a key in place and appends a new key at the end, as a
  Python dictionary does.
\<close>

type_synonym model_paths = "(string \<times> string option) list"
type_synonym all_paths = "(string \<times> model_paths) list"

text \<open>Lines 161-164: the loop over the models of one architecture.\<close>

fun download_arch_models ::
  "'w platform \<Rightarrow> 'w \<Rightarrow> string option \<Rightarrow> bool \<Rightarrow> string \<Rightarrow> model_paths
     \<Rightarrow> (string \<times> model_data) list \<Rightarrow> (exn + model_paths) \<times> 'w \<times> event list" where
  "download_arch_models S w save_path logger model_arch arch_paths [] = (Inr arch_paths, w, [])"
| "download_arch_models S w save_path logger model_arch arch_paths ((model_name, model_data) # rest) =
     (case model_data ''model_path'' of
        None \<Rightarrow> (Inl (KeyError ''model_path''), w, [])
      | Some model_path \<Rightarrow>
          (case download_model S w model_name model_arch (Some model_path) save_path logger of
             (Inl e, w', evs) \<Rightarrow> (Inl e, w', evs)
           | (Inr local_path, w', evs) \<Rightarrow>
               (case download_arch_models S w' save_path logger model_arch
                       (AList.update model_name local_path arch_paths) rest of
                  (r, w'', evs') \<Rightarrow> (r, w'', evs @ evs'))))"

text \<open>Lines 159-164: the loop over the architectures.\<close>

fun download_archs ::
  "'w platform \<Rightarrow> 'w \<Rightarrow> string option \<Rightarrow> bool \<Rightarrow> all_paths \<Rightarrow> manifest
     \<Rightarrow> (exn + all_paths) \<times> 'w \<times> event list" where
  "download_archs S w save_path logger paths [] = (Inr paths, w, [])"
| "download_archs S w save_path logger paths ((model_arch, models) # rest) =
     (case download_arch_models S w save_path logger model_arch [] models of
        (Inl e, w', evs) \<Rightarrow> (Inl e, w', evs)
      | (Inr arch_paths, w', evs) \<Rightarrow>
          (case download_archs S w' save_path logger
                  (AList.update model_arch arch_paths (AList.update model_arch [] paths)) rest of
             (r, w'', evs') \<Rightarrow> (r, w'', evs @ evs')))"

text \<open>
  Lines 152-166.  Without a manifest and with a logger, line 155 formats a message with
  \<open>model_name\<close>, a local variable that is assigned only in the loop below it.
\<close>

definition download_all_models ::
  "'w platform \<Rightarrow> 'w \<Rightarrow> manifest option \<Rightarrow> string option \<Rightarrow> bool
     \<Rightarrow> (exn + all_paths) \<times> 'w \<times> event list" where
  "download_all_models S w models_json save_path logger =
     (case models_json of
        Some models \<Rightarrow> download_archs S w save_path logger [] models
      | None \<Rightarrow>
          if logger then (Inl (UnboundLocalError ''model_name''), w, [])
          else
            (case load_json S w (os_path_join (uvr_path S) [''models_dir'', ''models.json'']) of
               Inl e \<Rightarrow> (Inl e, w, [])
             | Inr models \<Rightarrow> download_archs S w save_path logger [] models))"

subsection \<open>What \<open>download_all_models\<close> is to return\<close>

text \<open>
  A download has failed when one of its transfers raised.
\<close>

fun failed_transfer :: "event \<Rightarrow> bool" where
  "failed_transfer (Retrieve url local_file_path (Some e)) = True"
| "failed_transfer ev = False"

definition download_failed :: "event list \<Rightarrow> bool" where
  "download_failed evs = list_ex failed_transfer evs"

text \<open>
  The result as the documentation describes it, for the models of one architecture and
  for the whole manifest: the same keys in the same order; the value of each model is
  what \<open>download_model\<close> returns for it, called in the world the earlier downloads have
  left, and it is \<open>None\<close> exactly when that download failed.
\<close>

inductive models_collected ::
  "'w platform \<Rightarrow> string option \<Rightarrow> bool \<Rightarrow> string
     \<Rightarrow> 'w \<Rightarrow> (string \<times> model_data) list \<Rightarrow> model_paths \<Rightarrow> 'w \<Rightarrow> bool"
  for S :: "'w platform" and save_path :: "string option" and logger :: bool
    and model_arch :: string
where
  no_models: "models_collected S save_path logger model_arch w [] [] w"
| next_model:
    "model_data ''model_path'' = Some urls \<Longrightarrow>
     download_model S w model_name model_arch (Some urls) save_path logger
       = (Inr local_path, w1, evs) \<Longrightarrow>
     (local_path = None) = download_failed evs \<Longrightarrow>
     models_collected S save_path logger model_arch w1 rest results w' \<Longrightarrow>
     models_collected S save_path logger model_arch w
       ((model_name, model_data) # rest) ((model_name, local_path) # results) w'"

inductive manifest_collected ::
  "'w platform \<Rightarrow> string option \<Rightarrow> bool
     \<Rightarrow> 'w \<Rightarrow> manifest \<Rightarrow> all_paths \<Rightarrow> 'w \<Rightarrow> bool"
  for S :: "'w platform" and save_path :: "string option" and logger :: bool
where
  no_archs: "manifest_collected S save_path logger w [] [] w"
| next_arch:
    "models_collected S save_path logger model_arch w models arch_paths w1 \<Longrightarrow>
     manifest_collected S save_path logger w1 rest paths w' \<Longrightarrow>
     manifest_collected S save_path logger w
       ((model_arch, models) # rest) ((model_arch, arch_paths) # paths) w'"

subsection \<open>A sample platform\<close>

text \<open>
  A small concrete platform on which the functions can be run: the world is the list
  of paths that exist with their kinds, \<open>os.makedirs\<close> and a successful transfer add
  a path, and the URLs listed as unreachable raise.
\<close>

type_synonym sample_world = "(string \<times> node) list"

definition sample_entries :: "sample_world \<Rightarrow> string \<Rightarrow> string list" where
  "sample_entries w p =
     [drop (length p + 1) q. (q, n) \<leftarrow> w, startswith q (p @ ''/''),
        CHR ''/'' \<notin> set (drop (length p + 1) q)]"

definition sample_platform :: "string list \<Rightarrow> manifest \<Rightarrow> sample_world platform" where
  "sample_platform unreachable m =
     \<lparr> uvr_path = ''/uvr'',
       stat = map_of,
       dir_entries = sample_entries,
       makedirs = (\<lambda>w p. (None, (p, Dir) # w)),
       urlretrieve = (\<lambda>w url p. if url \<in> set unreachable then (Some (URLError url), w)
                                 else (None, (p, File) # w)),
       load_json = (\<lambda>w p. if p = ''/uvr/models_dir/models.json'' then Inr m
                           else Inl (FileNotFoundError p)) \<rparr>"

section \<open>Properties\<close>

subsection \<open>Auxiliary facts\<close>

lemmas sample_defs = sample_platform_def sample_entries_def
lemmas path_defs = os_path_join_def join_step_def startswith_def endswith_def
lemmas os_defs = os_path_exists_def os_path_isfile_def os_path_isdir_def os_listdir_def

lemma split_on_not_Nil: "split_on c s \<noteq> []"
  by (induction s) (auto split: list.splits)

lemma hd_split_on: "hd (split_on c s) = takeWhile (\<lambda>x. x \<noteq> c) s"
  by (induction s) (auto split: list.splits simp: split_on_not_Nil)

lemma length_split_on: "(Suc 0 < length (split_on c s)) = (c \<in> set s)"
  by (induction s) (auto split: list.splits simp: split_on_not_Nil)

lemma strip_extension_takeWhile:
  "strip_extension model_name = takeWhile (\<lambda>x. x \<noteq> CHR ''.'') model_name"
proof (cases "CHR ''.'' \<in> set model_name")
  case True
  then show ?thesis
    by (simp add: strip_extension_def hd_split_on length_split_on)
next
  case False
  then have tw: "takeWhile (\<lambda>x. x \<noteq> CHR ''.'') model_name = model_name"
    by (auto simp: takeWhile_eq_all_conv)
  from False have "strip_extension model_name = model_name"
    by (simp add: strip_extension_def length_split_on)
  then show ?thesis
    by (simp only: tw)
qed

lemma all_files_present_iff:
  "all_files_present S w save_path files =
     (\<forall>f \<in> set files. os_path_isfile S w (os_path_join save_path [f]))"
  by (induction files) auto

lemma isfile_exists: "os_path_isfile S w p \<Longrightarrow> os_path_exists S w p"
  by (simp add: os_defs)

lemma splitext_model [simp]: "os_path_splitext ''model'' = (''model'', [])"
  by (simp add: os_path_splitext_def rfind_def)

lemma splitext_model_onnx [simp]: "os_path_splitext ''model.onnx'' = (''model'', ''.onnx'')"
  by (simp add: os_path_splitext_def rfind_def has_non_dot.simps)

subsection \<open>\<open>model_exists_in_package\<close>\<close>

text \<open>
  Claim C8.  Let \<open>d\<close> be the directory \<open>model_exists_in_package\<close> resolves: the given
  \<open>save_path\<close>, or the conventional directory of the stripped name.  With a file list,
  one listed file that is not a regular file in \<open>d\<close> makes the result false, whether or
  not \<open>d\<close> exists; the result is true exactly when every listed file is a regular file
  in \<open>d\<close> and \<open>d\<close> exists.  Without a file list the result is whether \<open>d\<close> exists
  (\<open>os.path.exists\<close>).
\<close>

theorem model_exists_in_package_files:
  assumes "d = (case save_path of None \<Rightarrow> weights_dir S arch (strip_extension name) | Some sp \<Rightarrow> sp)"
  shows "((\<exists>f \<in> set files. \<not> os_path_isfile S w (os_path_join d [f]))
            \<longrightarrow> \<not> model_exists_in_package S w name arch save_path (Some files))
       \<and> model_exists_in_package S w name arch save_path (Some files) =
            ((\<forall>f \<in> set files. os_path_isfile S w (os_path_join d [f])) \<and> os_path_exists S w d)
       \<and> model_exists_in_package S w name arch save_path None = os_path_exists S w d"
  using assms by (auto simp: model_exists_in_package_def all_files_present_iff Let_def)

theorem model_exists_in_package_files_witness:
  "os_path_exists (sample_platform [] []) [(''/uvr/models_dir/demucs/weights/m'', Dir),
        (''/uvr/models_dir/demucs/weights/m/a.pt'', File)] ''/uvr/models_dir/demucs/weights/m''
   \<and> \<not> model_exists_in_package (sample_platform [] []) [(''/uvr/models_dir/demucs/weights/m'', Dir),
        (''/uvr/models_dir/demucs/weights/m/a.pt'', File)] ''m'' ''demucs'' None (Some [''a.pt'', ''b.pt''])
   \<and> model_exists_in_package (sample_platform [] []) [(''/uvr/models_dir/demucs/weights/m'', Dir),
        (''/uvr/models_dir/demucs/weights/m/a.pt'', File)] ''m'' ''demucs'' None (Some [''a.pt''])
   \<and> model_exists_in_package (sample_platform [] []) [(''/uvr/models_dir/demucs/weights/m'', Dir),
        (''/uvr/models_dir/demucs/weights/m/a.pt'', File)] ''m'' ''demucs'' None None"
  using model_exists_in_package_files [where d = "''/uvr/models_dir/demucs/weights/m''"
      and save_path = None and S = "sample_platform [] []" and arch = "''demucs''"
      and name = "''m''" and files = "[''a.pt'', ''b.pt'']"
      and w = "[(''/uvr/models_dir/demucs/weights/m'', Dir), (''/uvr/models_dir/demucs/weights/m/a.pt'', File)]"]
    model_exists_in_package_files [where d = "''/uvr/models_dir/demucs/weights/m''"
      and save_path = None and S = "sample_platform [] []" and arch = "''demucs''"
      and name = "''m''" and files = "[''a.pt'']"
      and w = "[(''/uvr/models_dir/demucs/weights/m'', Dir), (''/uvr/models_dir/demucs/weights/m/a.pt'', File)]"]
  by (simp add: sample_defs path_defs os_defs weights_dir_def strip_extension_takeWhile)

text \<open>
  Claim C9.  The claim says that only the final extension is removed, so that
  \<open>a.b.onnx\<close> is looked up in directory \<open>a.b\<close>.  Line 73 takes
  \<open>model_name.split('.')[0]\<close>, which is the name up to its first dot
  (\<open>strip_extension_takeWhile\<close>): \<open>a.b.onnx\<close> is looked up in directory \<open>a\<close>.
\<close>

theorem strip_extension_cuts_at_first_dot:
  "strip_extension ''a.b.onnx'' = ''a''
   \<and> model_exists_in_package S w ''a.b.onnx'' arch None None =
       os_path_exists S w (weights_dir S arch ''a'')"
  by (simp add: model_exists_in_package_def strip_extension_takeWhile)

subsection \<open>\<open>get_model_path\<close>\<close>

text \<open>
  Claim C4.  The claim says \<open>get_model_path\<close> never raises, also when the directory
  argument names a regular file.  The guard of line 94 tests \<open>os.path.exists\<close> only:
  for a name without extension and a directory argument that is a regular file, line 119
  calls \<open>os.listdir\<close> on the file, which raises \<open>NotADirectoryError\<close>.
\<close>

theorem get_model_path_regular_file_as_dir:
  assumes "snd (os_path_splitext name) = []"
    and "os_path_isfile S w dir"
    and "\<not> os_path_isdir S w (os_path_join dir [name])"
  shows "get_model_path S w name dir = Inl (NotADirectoryError dir)"
  using assms by (simp add: get_model_path_def scan_model_dir_def os_defs)

theorem get_model_path_regular_file_as_dir_witness:
  "get_model_path (sample_platform [] []) [(''/models'', Dir), (''/models/weights.bin'', File)]
     ''model'' ''/models/weights.bin'' = Inl (NotADirectoryError ''/models/weights.bin'')"
  using get_model_path_regular_file_as_dir [where name = "''model''"
      and S = "sample_platform [] []"
      and w = "[(''/models'', Dir), (''/models/weights.bin'', File)]"
      and dir = "''/models/weights.bin''"]
  by (simp add: sample_defs path_defs os_defs)

text \<open>
  The regular file (or other non-directory) as directory argument is the only way to the
  exception: for a directory argument that is missing or is a directory, the function
  returns.
\<close>

lemma get_model_path_returns:
  assumes "\<not> os_path_exists S w dir \<or> os_path_isdir S w dir"
  shows "\<exists>r. get_model_path S w name dir = Inr r"
proof -
  have listing: "os_listdir S w p = Inr (dir_entries S w p)" if "os_path_isdir S w p" for p
    using that by (simp add: os_listdir_def os_path_isdir_def)
  show ?thesis
    using assms
    by (auto simp: get_model_path_def scan_model_dir_def Let_def listing split: option.splits)
qed

text \<open>
  Claim C5, as amended.  For a name that carries an extension, \<open>get_model_path\<close>
  returns \<open>os.path.join(dir, name)\<close> exactly when \<open>dir\<close> exists and that path is a
  regular file, and \<open>None\<close> otherwise; it never raises and never looks into a
  subdirectory or scans \<open>dir\<close>.
\<close>

theorem get_model_path_with_extension:
  assumes "snd (os_path_splitext name) \<noteq> []"
  shows "get_model_path S w name dir =
           Inr (if os_path_exists S w dir \<and> os_path_isfile S w (os_path_join dir [name])
                then Some (os_path_join dir [name]) else None)"
  using assms by (auto simp: get_model_path_def Let_def isfile_exists)

theorem get_model_path_with_extension_witness:
  "snd (os_path_splitext ''model.onnx'') \<noteq> []
   \<and> get_model_path (sample_platform [] []) [(''/models'', Dir), (''/models/model'', Dir),
         (''/models/model/model.onnx'', File), (''/models/model.onnx'', File)] ''model.onnx'' ''/models''
       = Inr (Some ''/models/model.onnx'')
   \<and> get_model_path (sample_platform [] []) [(''/models'', Dir), (''/models/model'', Dir),
         (''/models/model/model.onnx'', File), (''/models/model.pth'', File)] ''model.onnx'' ''/models''
       = Inr None"
  using get_model_path_with_extension [where name = "''model.onnx''"
      and S = "sample_platform [] []"
      and w = "[(''/models'', Dir), (''/models/model'', Dir),
         (''/models/model/model.onnx'', File), (''/models/model.onnx'', File)]"
      and dir = "''/models''"]
    get_model_path_with_extension [where name = "''model.onnx''"
      and S = "sample_platform [] []"
      and w = "[(''/models'', Dir), (''/models/model'', Dir),
         (''/models/model/model.onnx'', File), (''/models/model.pth'', File)]"
      and dir = "''/models''"]
  by (simp add: sample_defs path_defs os_defs)

text \<open>
  Claim C5 as stated, without the condition on \<open>dir\<close>, fails: with the empty string as
  directory (what \<open>os.path.dirname\<close> gives for a bare file name) the joined path is
  \<open>model.onnx\<close>, an existing regular file, and line 94 returns \<open>None\<close> because
  \<open>os.path.exists("")\<close> is false.
\<close>

theorem get_model_path_with_extension_counterexample:
  "snd (os_path_splitext ''model.onnx'') \<noteq> []
   \<and> os_path_exists (sample_platform [] []) [(''model.onnx'', File)] (os_path_join '''' [''model.onnx''])
   \<and> os_path_isfile (sample_platform [] []) [(''model.onnx'', File)] (os_path_join '''' [''model.onnx''])
   \<and> get_model_path (sample_platform [] []) [(''model.onnx'', File)] ''model.onnx'' ''''
       \<noteq> Inr (Some (os_path_join '''' [''model.onnx'']))"
  by (simp add: get_model_path_def sample_defs path_defs os_defs)

lemma search_subdir_find:
  "search_subdir sub listing =
     map_option (\<lambda>f. os_path_join sub [f]) (find has_model_extension listing)"
  by (induction listing) auto

lemma scan_dir_find:
  "scan_dir S w dir name listing =
     map_option (\<lambda>f. os_path_join dir [f])
       (find (\<lambda>f. os_path_isfile S w (os_path_join dir [f]) \<and> fst (os_path_splitext f) = name)
          listing)"
  by (induction listing) auto

lemma scan_model_dir_find:
  "scan_model_dir S w dir name =
     (case os_listdir S w dir of
        Inl e \<Rightarrow> Inl e
      | Inr listing \<Rightarrow>
          Inr (map_option (\<lambda>f. os_path_join dir [f])
                 (find (\<lambda>f. os_path_isfile S w (os_path_join dir [f])
                            \<and> fst (os_path_splitext f) = name) listing)))"
  by (simp add: scan_model_dir_def scan_dir_find split: sum.splits)

lemma splitext_model_pth [simp]: "os_path_splitext ''model.pth'' = (''model'', ''.pth'')"
  by (simp add: os_path_splitext_def rfind_def has_non_dot.simps)

text \<open>
  What lines 105-123 do.  For a name without extension and an existing \<open>dir\<close>, let
  \<open>sub\<close> be \<open>os.path.join(dir, name)\<close>.  When \<open>sub\<close> is a directory and \<open>entry\<close> is
  the first name listed in it that ends in \<open>.onnx\<close>, \<open>.pth\<close> or \<open>.ckpt\<close>, the result
  is \<open>os.path.join(sub, entry)\<close>.  When \<open>sub\<close> is not a directory or lists no such
  name, the result is that of scanning \<open>dir\<close>: the path of the first listed regular
  file whose base name (\<open>os.path.splitext\<close>) is the given name, or \<open>None\<close>.  The
  entries of \<open>sub\<close> are tested by name only.
\<close>

lemma get_model_path_prefers_subdir:
  assumes "snd (os_path_splitext name) = []"
    and "os_path_exists S w dir"
    and "sub = os_path_join dir [name]"
  shows "(os_path_isdir S w sub \<and> find has_model_extension (dir_entries S w sub) = Some entry
            \<longrightarrow> get_model_path S w name dir = Inr (Some (os_path_join sub [entry])))
       \<and> (\<not> os_path_isdir S w sub \<or> find has_model_extension (dir_entries S w sub) = None
            \<longrightarrow> get_model_path S w name dir =
                  (case os_listdir S w dir of
                     Inl e \<Rightarrow> Inl e
                   | Inr listing \<Rightarrow>
                       Inr (map_option (\<lambda>f. os_path_join dir [f])
                              (find (\<lambda>f. os_path_isfile S w (os_path_join dir [f])
                                         \<and> fst (os_path_splitext f) = name) listing))))"
proof -
  have sub_listing: "os_listdir S w p = Inr (dir_entries S w p)" if "os_path_isdir S w p" for p
    using that by (simp add: os_listdir_def os_path_isdir_def)
  show ?thesis
    using assms
    by (auto simp: get_model_path_def Let_def sub_listing search_subdir_find
        scan_model_dir_find [symmetric])
qed

lemma get_model_path_prefers_subdir_example:
  "get_model_path (sample_platform [] [])
     [(''/models'', Dir), (''/models/model'', Dir), (''/models/model/notes.txt'', File),
      (''/models/model/weights.onnx'', File), (''/models/model.pth'', File)]
     ''model'' ''/models'' = Inr (Some ''/models/model/weights.onnx'')
   \<and> get_model_path (sample_platform [] [])
     [(''/models'', Dir), (''/models/model'', Dir), (''/models/model/notes.txt'', File),
      (''/models/model.pth'', File)]
     ''model'' ''/models'' = Inr (Some ''/models/model.pth'')"
proof -
  let ?P = "sample_platform [] [] :: sample_world platform"
  let ?W1 = "[(''/models'', Dir), (''/models/model'', Dir), (''/models/model/notes.txt'', File),
      (''/models/model/weights.onnx'', File), (''/models/model.pth'', File)]"
  let ?W2 = "[(''/models'', Dir), (''/models/model'', Dir), (''/models/model/notes.txt'', File),
      (''/models/model.pth'', File)]"
  have noext: "snd (os_path_splitext ''model'') = []"
    by simp
  have sub: "''/models/model'' = os_path_join ''/models'' [''model'']"
    by (simp add: path_defs)
  have ex1: "os_path_exists ?P ?W1 ''/models''" and ex2: "os_path_exists ?P ?W2 ''/models''"
    by (simp_all add: os_path_exists_def sample_platform_def)
  have dir1: "os_path_isdir ?P ?W1 ''/models/model''"
    and dir2: "os_path_isdir ?P ?W2 ''/models/model''"
    by (simp_all add: os_path_isdir_def sample_platform_def)
  have found: "find has_model_extension (dir_entries ?P ?W1 ''/models/model'') = Some ''weights.onnx''"
    by (simp add: sample_defs startswith_def has_model_extension_def endswith_def)
  have no_entry: "find has_model_extension (dir_entries ?P ?W2 ''/models/model'') = None"
    by (simp add: sample_defs startswith_def has_model_extension_def endswith_def)
  have listing: "os_listdir ?P ?W2 ''/models'' = Inr [''model'', ''model.pth'']"
    by (simp add: os_listdir_def sample_defs startswith_def)
  have "get_model_path ?P ?W1 ''model'' ''/models''
          = Inr (Some (os_path_join ''/models/model'' [''weights.onnx'']))"
    by (rule get_model_path_prefers_subdir [OF noext ex1 sub, THEN conjunct1, THEN mp])
      (rule conjI, rule dir1, rule found)
  then have first: "get_model_path ?P ?W1 ''model'' ''/models''
                      = Inr (Some ''/models/model/weights.onnx'')"
    by (simp add: path_defs)
  have "get_model_path ?P ?W2 ''model'' ''/models'' =
          (case os_listdir ?P ?W2 ''/models'' of
             Inl e \<Rightarrow> Inl e
           | Inr listing \<Rightarrow>
               Inr (map_option (\<lambda>f. os_path_join ''/models'' [f])
                      (find (\<lambda>f. os_path_isfile ?P ?W2 (os_path_join ''/models'' [f])
                                 \<and> fst (os_path_splitext f) = ''model'') listing)))"
    using get_model_path_prefers_subdir [OF noext ex2 sub, THEN conjunct2, THEN mp, OF disjI2, OF no_entry] .
  then have "get_model_path ?P ?W2 ''model'' ''/models'' =
               Inr (map_option (\<lambda>f. os_path_join ''/models'' [f])
                      (find (\<lambda>f. os_path_isfile ?P ?W2 (os_path_join ''/models'' [f])
                                 \<and> fst (os_path_splitext f) = ''model'')
                         [''model'', ''model.pth'']))"
    by (simp only: listing sum.case)
  then have second: "get_model_path ?P ?W2 ''model'' ''/models'' = Inr (Some ''/models/model.pth'')"
    by (simp add: path_defs os_path_isfile_def sample_platform_def)
  from first second show ?thesis
    by simp
qed

text \<open>
  Claim C6.  The claim says that a file of the subdirectory ending in \<open>.onnx\<close>,
  \<open>.pth\<close> or \<open>.ckpt\<close> is returned, and that \<open>dir\<close> is scanned when the subdirectory
  holds no such file.  The loop of lines 111-114 looks for model files (comment of line
  110) but tests the name only; the loop of lines 119-123 has the \<open>os.path.isfile\<close>
  test that this one lacks.  So a directory entry with such a name is returned: below, the
  checkpoint directory \<open>last.ckpt\<close> is returned ahead of the regular file
  \<open>real.onnx\<close> beside it, and it is returned when the subdirectory holds no regular
  file at all and \<open>dir\<close> has the file \<open>model.pth\<close>, which is never scanned for.
\<close>

theorem get_model_path_returns_directory_entry:
  "os_path_isdir (sample_platform [] [])
     [(''/models'', Dir), (''/models/model'', Dir), (''/models/model/last.ckpt'', Dir),
      (''/models/model/real.onnx'', File)]
     ''/models/model/last.ckpt''
   \<and> os_path_isfile (sample_platform [] [])
     [(''/models'', Dir), (''/models/model'', Dir), (''/models/model/last.ckpt'', Dir),
      (''/models/model/real.onnx'', File)]
     ''/models/model/real.onnx''
   \<and> get_model_path (sample_platform [] [])
       [(''/models'', Dir), (''/models/model'', Dir), (''/models/model/last.ckpt'', Dir),
        (''/models/model/real.onnx'', File)]
       ''model'' ''/models'' = Inr (Some ''/models/model/last.ckpt'')
   \<and> os_path_isfile (sample_platform [] [])
     [(''/models'', Dir), (''/models/model'', Dir), (''/models/model/last.ckpt'', Dir),
      (''/models/model.pth'', File)]
     ''/models/model.pth''
   \<and> get_model_path (sample_platform [] [])
       [(''/models'', Dir), (''/models/model'', Dir), (''/models/model/last.ckpt'', Dir),
        (''/models/model.pth'', File)]
       ''model'' ''/models'' = Inr (Some ''/models/model/last.ckpt'')"
  by (simp add: get_model_path_def has_model_extension_def os_defs path_defs sample_defs)

subsection \<open>\<open>download_model\<close>\<close>

text \<open>
  Claim C3.  When no URLs are given and the manifest that was loaded has no entry for the
  architecture, or none for the model name under that architecture, \<open>download_model\<close>
  raises \<open>KeyError\<close> (of the architecture when that is missing, of the model name
  otherwise).  The exception leaves the function: the result is not \<open>None\<close>, nothing
  was transferred, and the only message is the one of line 25 when a logger is present.
\<close>

theorem download_model_missing_manifest_entry:
  assumes "load_json S w (os_path_join (uvr_path S) [''models_dir'', ''models.json'']) = Inr models"
    and "(case map_of models arch of None \<Rightarrow> True
          | Some arch_models \<Rightarrow> map_of arch_models name = None)"
  shows "download_model S w name arch None save_path logger =
           (Inl (KeyError (if map_of models arch = None then arch else name)), w,
            if logger then [LogError (AutoLoading name)] else [])"
  using assms
  by (auto simp: download_model_def resolve_model_path_def split: option.splits)

theorem download_model_missing_manifest_entry_witness:
  "download_model
     (sample_platform [] [(''demucs'', [(''htdemucs'', [''model_path'' \<mapsto> [''https://h/htdemucs.th'']])])])
     [] ''unknown'' ''demucs'' None None True
   = (Inl (KeyError ''unknown''), [], [LogError (AutoLoading ''unknown'')])
   \<and> download_model
     (sample_platform [] [(''demucs'', [(''htdemucs'', [''model_path'' \<mapsto> [''https://h/htdemucs.th'']])])])
     [] ''htdemucs'' ''vr'' None None False
   = (Inl (KeyError ''vr''), [], [])"
  using download_model_missing_manifest_entry [where
      S = "sample_platform [] [(''demucs'', [(''htdemucs'', [''model_path'' \<mapsto> [''https://h/htdemucs.th'']])])]"
      and w = "[]" and name = "''unknown''" and arch = "''demucs''" and save_path = None
      and logger = True
      and models = "[(''demucs'', [(''htdemucs'', [''model_path'' \<mapsto> [''https://h/htdemucs.th'']])])]"]
    download_model_missing_manifest_entry [where
      S = "sample_platform [] [(''demucs'', [(''htdemucs'', [''model_path'' \<mapsto> [''https://h/htdemucs.th'']])])]"
      and w = "[]" and name = "''htdemucs''" and arch = "''vr''" and save_path = None
      and logger = False
      and models = "[(''demucs'', [(''htdemucs'', [''model_path'' \<mapsto> [''https://h/htdemucs.th'']])])]"]
  by (simp add: sample_defs path_defs)

lemma model_exists_default:
  "model_exists_in_package S w name arch None (Some files) =
     ((\<forall>f \<in> set files.
          os_path_isfile S w (os_path_join (weights_dir S arch (strip_extension name)) [f]))
      \<and> os_path_exists S w (weights_dir S arch (strip_extension name)))"
  by (auto simp: model_exists_in_package_def all_files_present_iff Let_def)

lemma file_names_sample [simp]:
  "file_names [''https://h/m/a.th'', ''https://h/m/b.th''] = [''a.th'', ''b.th'']"
  by (simp add: file_names_def)

text \<open>
  When the check of line 37 succeeds.  The expected files of a model are the last
  components of its URLs.  The check looks for them in the conventional directory of the
  model name cut at its first dot; with no \<open>save_path\<close> argument and no dot in the
  name this is the save path itself.  When the save path exists, that directory exists
  and every expected file is a regular file in it, \<open>download_model\<close> returns the save
  path and leaves the world as it was; \<open>urlretrieve\<close> is not called, the only events
  are the messages to the logger.
\<close>

lemma download_model_already_present:
  assumes "resolve_model_path S w name arch model_path = Inr urls"
    and "sp = (case save_path of None \<Rightarrow> weights_dir S arch name | Some p \<Rightarrow> p)"
    and "os_path_exists S w sp"
    and "local_dir = weights_dir S arch (strip_extension name)"
    and "os_path_exists S w local_dir"
    and "\<forall>f \<in> set (file_names urls). os_path_isfile S w (os_path_join local_dir [f])"
  shows "download_model S w name arch model_path save_path logger =
           (Inr (Some sp), w,
            (if model_path = None \<and> logger then [LogError (AutoLoading name)] else [])
              @ (if logger then [LogInfo (AlreadyExists name sp)] else []))"
proof -
  have dir: "ensure_dir S w sp = (None, w)"
    using assms(3) by (simp add: ensure_dir_def)
  have present: "model_exists_in_package S w name arch None (Some (file_names urls))"
    using assms(4-6) by (simp add: model_exists_default)
  show ?thesis
    using assms(1,2) dir present by (simp add: download_model_def Let_def)
qed

lemma download_model_already_present_example:
  "download_model (sample_platform [] [])
     [(''/uvr/models_dir/demucs/weights/htdemucs'', Dir),
      (''/uvr/models_dir/demucs/weights/htdemucs/a.th'', File),
      (''/uvr/models_dir/demucs/weights/htdemucs/b.th'', File)]
     ''htdemucs'' ''demucs'' (Some [''https://h/m/a.th'', ''https://h/m/b.th'']) None True
   = (Inr (Some ''/uvr/models_dir/demucs/weights/htdemucs''),
      [(''/uvr/models_dir/demucs/weights/htdemucs'', Dir),
       (''/uvr/models_dir/demucs/weights/htdemucs/a.th'', File),
       (''/uvr/models_dir/demucs/weights/htdemucs/b.th'', File)],
      [LogInfo (AlreadyExists ''htdemucs'' ''/uvr/models_dir/demucs/weights/htdemucs'')])"
proof -
  let ?P = "sample_platform [] [] :: sample_world platform"
  let ?W = "[(''/uvr/models_dir/demucs/weights/htdemucs'', Dir),
      (''/uvr/models_dir/demucs/weights/htdemucs/a.th'', File),
      (''/uvr/models_dir/demucs/weights/htdemucs/b.th'', File)]"
  let ?urls = "[''https://h/m/a.th'', ''https://h/m/b.th'']"
  let ?d = "''/uvr/models_dir/demucs/weights/htdemucs''"
  have urls: "resolve_model_path ?P ?W ''htdemucs'' ''demucs'' (Some ?urls) = Inr ?urls"
    by (simp add: resolve_model_path_def)
  have sp: "?d = (case None of None \<Rightarrow> weights_dir ?P ''demucs'' ''htdemucs'' | Some p \<Rightarrow> p)"
    by (simp add: weights_dir_def path_defs sample_platform_def)
  have local_dir: "?d = weights_dir ?P ''demucs'' (strip_extension ''htdemucs'')"
    by (simp add: weights_dir_def path_defs sample_platform_def strip_extension_takeWhile)
  have dir: "os_path_exists ?P ?W ?d"
    by (simp add: os_path_exists_def sample_platform_def)
  have files: "\<forall>f \<in> set (file_names ?urls). os_path_isfile ?P ?W (os_path_join ?d [f])"
    by (simp add: os_path_isfile_def sample_platform_def path_defs)
  show ?thesis
    using download_model_already_present [OF urls sp dir local_dir dir files, of True]
    by simp
qed

text \<open>
  Claim C1.  The claim says that a model whose expected files are all present locally is
  not downloaded again, and so does the docstring of lines 16-17 (a model that is
  already downloaded will not be downloaded again).  The files are saved in \<open>save_path\<close> (lines 31 and
  45), but line 37 calls \<open>model_exists_in_package\<close> without \<open>save_path\<close>, and lines
  72-76 then look in the conventional directory of the name cut at its first dot.  So for
  a model name with a dot, or for a \<open>save_path\<close> given by the caller, the files can all
  be regular files in the save path that is returned and are transferred again all the
  same.  Below, first the model \<open>m.v2\<close> with its file in
  \<open>weights/m.v2\<close>, then the model \<open>m\<close> with its file in the given directory
  \<open>/data/out\<close>: each call ends with a transfer.
\<close>

theorem download_model_downloads_again:
  "os_path_isfile (sample_platform [] [])
     [(''/uvr/models_dir/demucs/weights/m.v2'', Dir),
      (''/uvr/models_dir/demucs/weights/m.v2/a.th'', File)]
     (os_path_join (weights_dir (sample_platform [] []) ''demucs'' ''m.v2'')
        [last (split_on CHR ''/'' ''https://h/m/a.th'')])
   \<and> download_model (sample_platform [] [])
       [(''/uvr/models_dir/demucs/weights/m.v2'', Dir),
        (''/uvr/models_dir/demucs/weights/m.v2/a.th'', File)]
       ''m.v2'' ''demucs'' (Some [''https://h/m/a.th'']) None False
     = (Inr (Some ''/uvr/models_dir/demucs/weights/m.v2''),
        [(''/uvr/models_dir/demucs/weights/m.v2/a.th'', File),
         (''/uvr/models_dir/demucs/weights/m.v2'', Dir),
         (''/uvr/models_dir/demucs/weights/m.v2/a.th'', File)],
        [Retrieve ''https://h/m/a.th'' ''/uvr/models_dir/demucs/weights/m.v2/a.th'' None])
   \<and> os_path_isfile (sample_platform [] [])
       [(''/data/out'', Dir), (''/data/out/a.th'', File)]
       (os_path_join ''/data/out'' [last (split_on CHR ''/'' ''https://h/m/a.th'')])
   \<and> download_model (sample_platform [] [])
       [(''/data/out'', Dir), (''/data/out/a.th'', File)]
       ''m'' ''demucs'' (Some [''https://h/m/a.th'']) (Some ''/data/out'') False
     = (Inr (Some ''/data/out''),
        [(''/data/out/a.th'', File), (''/data/out'', Dir), (''/data/out/a.th'', File)],
        [Retrieve ''https://h/m/a.th'' ''/data/out/a.th'' None])"
proof -
  have name_a: "last (split_on CHR ''/'' ''https://h/m/a.th'') = ''a.th''"
    by simp
  show ?thesis
    by (simp add: download_model_def resolve_model_path_def weights_dir_def ensure_dir_def
        model_exists_in_package_def file_names_def name_a strip_extension_takeWhile
        os_defs path_defs sample_platform_def Let_def)
qed

lemma download_files_first_retrieve:
  "\<exists>r. Retrieve path (os_path_join sp [file_name]) r
         \<in> set (snd (snd (download_files S w lg n mp sp ((file_name, path) # rest))))"
  by (auto simp: Let_def split: prod.splits option.splits)

text \<open>
  Claim C10.  A call with an explicit \<open>save_path\<close>, in the world \<open>w1\<close> that lines 33-34
  leave (the given world when \<open>save_path\<close> exists), where a regular file lies in an
  existing directory: the call returns \<open>save_path\<close> without any transfer exactly when
  every expected file is a regular file in the default directory, the conventional one of
  the architecture and the stripped model name.  What \<open>save_path\<close> holds plays no part.
\<close>

theorem download_model_checks_default_dir:
  assumes "ensure_dir S w sp = (None, w1)"
    and "default_dir = weights_dir S arch (strip_extension name)"
    and "\<forall>f \<in> set (file_names urls).
           os_path_isfile S w1 (os_path_join default_dir [f]) \<longrightarrow> os_path_exists S w1 default_dir"
    and "run = download_model S w name arch (Some urls) (Some sp) logger"
  shows "(fst run = Inr (Some sp) \<and> (\<forall>url p r. Retrieve url p r \<notin> set (snd (snd run))))
         = (\<forall>f \<in> set (file_names urls). os_path_isfile S w1 (os_path_join default_dir [f]))"
proof (cases "model_exists_in_package S w1 name arch None (Some (file_names urls))")
  case True
  then have "run = (Inr (Some sp), w1, if logger then [LogInfo (AlreadyExists name sp)] else [])"
    using assms(1,4) by (simp add: download_model_def resolve_model_path_def Let_def)
  moreover have "\<forall>f \<in> set (file_names urls). os_path_isfile S w1 (os_path_join default_dir [f])"
    using True assms(2) by (simp add: model_exists_default)
  ultimately show ?thesis by simp
next
  case False
  then have run: "run = (case download_files S w1 logger name urls sp (zip (file_names urls) urls) of
                     (None, w2, evs) \<Rightarrow> (Inr (Some sp), w2, evs)
                   | (Some e, w2, evs) \<Rightarrow>
                       (Inr None, w2,
                        evs @ (if logger then [LogError (FailedDownload name urls e)] else [])))"
    using assms(1,4)
    by (simp add: download_model_def resolve_model_path_def Let_def
        split: prod.splits option.splits)
  show ?thesis
  proof (cases urls)
    case Nil
    then show ?thesis using run by (simp add: file_names_def)
  next
    case (Cons u us)
    let ?f = "last (split_on CHR ''/'' u)"
    have zip: "zip (file_names urls) urls = (?f, u) # zip (file_names us) us"
      using Cons by (simp add: file_names_def)
    obtain r where "Retrieve u (os_path_join sp [?f]) r
        \<in> set (snd (snd (download_files S w1 logger name urls sp (zip (file_names urls) urls))))"
      using download_files_first_retrieve [of u sp ?f S w1 logger name urls "zip (file_names us) us"]
      by (auto simp: zip)
    then have "Retrieve u (os_path_join sp [?f]) r \<in> set (snd (snd run))"
      by (auto simp: run split: prod.splits option.splits)
    then have lhs: "\<not> (fst run = Inr (Some sp) \<and> (\<forall>url p r. Retrieve url p r \<notin> set (snd (snd run))))"
      by blast
    have "?f \<in> set (file_names urls)"
      using Cons by (simp add: file_names_def)
    then have "\<not> (\<forall>f \<in> set (file_names urls). os_path_isfile S w1 (os_path_join default_dir [f]))"
      using False assms(2,3) by (auto simp: model_exists_default)
    with lhs show ?thesis by blast
  qed
qed

theorem download_model_checks_default_dir_witness:
  "fst (download_model (sample_platform [] [])
          [(''/uvr/models_dir/demucs/weights/htdemucs'', Dir),
           (''/uvr/models_dir/demucs/weights/htdemucs/a.th'', File),
           (''/uvr/models_dir/demucs/weights/htdemucs/b.th'', File),
           (''/data/out'', Dir)]
          ''htdemucs'' ''demucs'' (Some [''https://h/m/a.th'', ''https://h/m/b.th''])
          (Some ''/data/out'') False)
     = Inr (Some ''/data/out'')
   \<and> (\<forall>url p r. Retrieve url p r \<notin> set (snd (snd
         (download_model (sample_platform [] [])
            [(''/uvr/models_dir/demucs/weights/htdemucs'', Dir),
             (''/uvr/models_dir/demucs/weights/htdemucs/a.th'', File),
             (''/uvr/models_dir/demucs/weights/htdemucs/b.th'', File),
             (''/data/out'', Dir)]
            ''htdemucs'' ''demucs'' (Some [''https://h/m/a.th'', ''https://h/m/b.th''])
            (Some ''/data/out'') False))))"
proof -
  let ?P = "sample_platform [] [] :: sample_world platform"
  let ?W = "[(''/uvr/models_dir/demucs/weights/htdemucs'', Dir),
      (''/uvr/models_dir/demucs/weights/htdemucs/a.th'', File),
      (''/uvr/models_dir/demucs/weights/htdemucs/b.th'', File),
      (''/data/out'', Dir)]"
  let ?urls = "[''https://h/m/a.th'', ''https://h/m/b.th'']"
  let ?d = "''/uvr/models_dir/demucs/weights/htdemucs''"
  have dir: "ensure_dir ?P ?W ''/data/out'' = (None, ?W)"
    by (simp add: ensure_dir_def os_path_exists_def sample_platform_def)
  have default_dir: "?d = weights_dir ?P ''demucs'' (strip_extension ''htdemucs'')"
    by (simp add: weights_dir_def path_defs sample_platform_def strip_extension_takeWhile)
  have inside: "\<forall>f \<in> set (file_names ?urls).
                  os_path_isfile ?P ?W (os_path_join ?d [f]) \<longrightarrow> os_path_exists ?P ?W ?d"
    by (simp add: os_path_exists_def sample_platform_def)
  have files: "\<forall>f \<in> set (file_names ?urls). os_path_isfile ?P ?W (os_path_join ?d [f])"
    by (simp add: os_path_isfile_def sample_platform_def path_defs)
  show ?thesis
    using download_model_checks_default_dir [where logger = False, OF dir default_dir inside refl]
      files
    by blast
qed

lemma download_files_append:
  "download_files S w lg n mp sp ps = (None, w2, evs) \<Longrightarrow>
   download_files S w lg n mp sp (ps @ qs) =
     (case download_files S w2 lg n mp sp qs of (r, w', evs') \<Rightarrow> (r, w', evs @ evs'))"
proof (induction ps arbitrary: w evs)
  case Nil
  then show ?case by (simp split: prod.splits)
next
  case (Cons p ps)
  obtain f u where p: "p = (f, u)" by (cases p)
  from Cons.prems obtain wa where step: "urlretrieve S w u (os_path_join sp [f]) = (None, wa)"
    by (auto simp: p Let_def split: prod.splits option.splits)
  from Cons.prems step obtain evs1 where
    rest: "download_files S wa lg n mp sp ps = (None, w2, evs1)"
    and evs: "evs = Retrieve u (os_path_join sp [f]) None
                # (if lg then [LogInfo (Downloaded n mp)] else []) @ evs1"
    by (auto simp: p Let_def split: prod.splits)
  obtain r w' evs' where tail: "download_files S w2 lg n mp sp qs = (r, w', evs')"
    by (cases "download_files S w2 lg n mp sp qs") auto
  have "download_files S wa lg n mp sp (ps @ qs) = (r, w', evs1 @ evs')"
    using Cons.IH [OF rest] by (simp add: tail)
  then show ?case
    by (simp add: p evs step tail)
qed

lemma download_files_success_events:
  "download_files S w lg n mp sp (zip (file_names ds) ds) = (None, w2, evs) \<Longrightarrow>
   evs = concat (map (\<lambda>u. Retrieve u (os_path_join sp [last (split_on CHR ''/'' u)]) None
                        # (if lg then [LogInfo (Downloaded n mp)] else [])) ds)"
proof (induction ds arbitrary: w evs)
  case Nil
  then show ?case by (simp add: file_names_def)
next
  case (Cons d ds)
  let ?f = "last (split_on CHR ''/'' d)"
  have zip: "zip (file_names (d # ds)) (d # ds) = (?f, d) # zip (file_names ds) ds"
    by (simp add: file_names_def)
  from Cons.prems obtain wa where step: "urlretrieve S w d (os_path_join sp [?f]) = (None, wa)"
    by (auto simp: zip Let_def split: prod.splits option.splits)
  from Cons.prems step obtain evs1 where
    rest: "download_files S wa lg n mp sp (zip (file_names ds) ds) = (None, w2, evs1)"
    and evs: "evs = Retrieve d (os_path_join sp [?f]) None
                # (if lg then [LogInfo (Downloaded n mp)] else []) @ evs1"
    by (auto simp: zip Let_def split: prod.splits)
  show ?case
    using Cons.IH [OF rest] by (simp add: evs)
qed

text \<open>
  Claim C2.  Let the URLs be \<open>done @ url # remaining\<close>, the model not be found already
  downloaded, the transfers of \<open>done\<close> succeed and the transfer of \<open>url\<close> raise \<open>e\<close>.
  Then \<open>download_model\<close> returns \<open>None\<close>; the events are the transfers of \<open>done\<close>
  (each followed by its message when a logger is present), the failed transfer of
  \<open>url\<close> and, when a logger is present, the error message with \<open>e\<close>: nothing of
  \<open>remaining\<close> is attempted; and the world returned is the one the failed transfer
  left, so nothing that was downloaded before is removed.
\<close>

theorem download_model_first_failure:
  assumes "resolve_model_path S w name arch model_path = Inr urls"
    and "urls = done @ url # remaining"
    and "sp = (case save_path of None \<Rightarrow> weights_dir S arch name | Some p \<Rightarrow> p)"
    and "ensure_dir S w sp = (None, w1)"
    and "\<not> model_exists_in_package S w1 name arch None (Some (file_names urls))"
    and "download_files S w1 logger name urls sp (zip (file_names done) done) = (None, w2, evs)"
    and "urlretrieve S w2 url (os_path_join sp [last (split_on CHR ''/'' url)]) = (Some e, w3)"
  shows "download_model S w name arch model_path save_path logger =
           (Inr None, w3,
            (if model_path = None \<and> logger then [LogError (AutoLoading name)] else [])
              @ evs
              @ [Retrieve url (os_path_join sp [last (split_on CHR ''/'' url)]) (Some e)]
              @ (if logger then [LogError (FailedDownload name urls e)] else []))
         \<and> evs = concat (map (\<lambda>u. Retrieve u (os_path_join sp [last (split_on CHR ''/'' u)]) None
                                   # (if logger then [LogInfo (Downloaded name urls)] else []))
                           done)"
proof -
  let ?f = "last (split_on CHR ''/'' url)"
  have zip: "zip (file_names urls) urls =
               zip (file_names done) done @ (?f, url) # zip (file_names remaining) remaining"
    by (simp add: assms(2) file_names_def)
  have failing: "download_files S w2 logger name urls sp ((?f, url) # zip (file_names remaining) remaining)
                   = (Some e, w3, [Retrieve url (os_path_join sp [?f]) (Some e)])"
    using assms(7) by (simp add: Let_def)
  have loop: "download_files S w1 logger name urls sp (zip (file_names urls) urls)
                = (Some e, w3, evs @ [Retrieve url (os_path_join sp [?f]) (Some e)])"
    using download_files_append [OF assms(6)] failing by (simp add: zip)
  have "download_model S w name arch model_path save_path logger =
           (Inr None, w3,
            (if model_path = None \<and> logger then [LogError (AutoLoading name)] else [])
              @ evs @ [Retrieve url (os_path_join sp [?f]) (Some e)]
              @ (if logger then [LogError (FailedDownload name urls e)] else []))"
    using assms(1,3,4,5) loop by (simp add: download_model_def Let_def)
  then show ?thesis
    using download_files_success_events [OF assms(6)] by simp
qed

theorem download_model_first_failure_witness:
  "download_model (sample_platform [''https://h/m/b.th''] []) [] ''htdemucs'' ''demucs''
     (Some [''https://h/m/a.th'', ''https://h/m/b.th'', ''https://h/m/c.th'']) None True
   = (Inr None,
      [(''/uvr/models_dir/demucs/weights/htdemucs/a.th'', File),
       (''/uvr/models_dir/demucs/weights/htdemucs'', Dir)],
      [Retrieve ''https://h/m/a.th'' ''/uvr/models_dir/demucs/weights/htdemucs/a.th'' None,
       LogInfo (Downloaded ''htdemucs'' [''https://h/m/a.th'', ''https://h/m/b.th'', ''https://h/m/c.th'']),
       Retrieve ''https://h/m/b.th'' ''/uvr/models_dir/demucs/weights/htdemucs/b.th''
         (Some (URLError ''https://h/m/b.th'')),
       LogError (FailedDownload ''htdemucs''
         [''https://h/m/a.th'', ''https://h/m/b.th'', ''https://h/m/c.th'']
         (URLError ''https://h/m/b.th''))])"
proof -
  let ?P = "sample_platform [''https://h/m/b.th''] [] :: sample_world platform"
  let ?urls = "[''https://h/m/a.th'', ''https://h/m/b.th'', ''https://h/m/c.th'']"
  let ?d = "''/uvr/models_dir/demucs/weights/htdemucs''"
  let ?W1 = "[(?d, Dir)]"
  let ?W2 = "[(''/uvr/models_dir/demucs/weights/htdemucs/a.th'', File), (?d, Dir)]"
  let ?evs = "[Retrieve ''https://h/m/a.th'' ''/uvr/models_dir/demucs/weights/htdemucs/a.th'' None,
               LogInfo (Downloaded ''htdemucs'' ?urls)]"
  have name_a: "last (split_on CHR ''/'' ''https://h/m/a.th'') = ''a.th''"
    and name_b: "last (split_on CHR ''/'' ''https://h/m/b.th'') = ''b.th''"
    by simp_all
  have urls: "resolve_model_path ?P [] ''htdemucs'' ''demucs'' (Some ?urls) = Inr ?urls"
    by (simp add: resolve_model_path_def)
  have split: "?urls = [''https://h/m/a.th''] @ ''https://h/m/b.th'' # [''https://h/m/c.th'']"
    by simp
  have sp: "?d = (case None of None \<Rightarrow> weights_dir ?P ''demucs'' ''htdemucs'' | Some p \<Rightarrow> p)"
    by (simp add: weights_dir_def path_defs sample_platform_def)
  have dir: "ensure_dir ?P [] ?d = (None, ?W1)"
    by (simp add: ensure_dir_def os_path_exists_def sample_platform_def)
  have absent: "\<not> model_exists_in_package ?P ?W1 ''htdemucs'' ''demucs'' None (Some (file_names ?urls))"
    by (simp add: model_exists_in_package_def file_names_def name_a os_path_isfile_def
        sample_platform_def)
  have before: "download_files ?P ?W1 True ''htdemucs'' ?urls ?d
                  (zip (file_names [''https://h/m/a.th'']) [''https://h/m/a.th'']) = (None, ?W2, ?evs)"
    by (simp add: file_names_def name_a path_defs sample_platform_def Let_def)
  have failing: "urlretrieve ?P ?W2 ''https://h/m/b.th''
                   (os_path_join ?d [last (split_on CHR ''/'' ''https://h/m/b.th'')])
                 = (Some (URLError ''https://h/m/b.th''), ?W2)"
    by (simp add: sample_platform_def)
  show ?thesis
    using download_model_first_failure [OF urls split sp dir absent before failing, THEN conjunct1]
    by (simp add: name_b path_defs)
qed

subsection \<open>\<open>download_all_models\<close>\<close>

lemma update_fresh: "k \<notin> fst ` set al \<Longrightarrow> AList.update k v al = al @ [(k, v)]"
  by (induction al) auto

lemma update_last:
  "k \<notin> fst ` set al \<Longrightarrow> AList.update k v (al @ [(k, v0)]) = al @ [(k, v)]"
  by (induction al) auto

lemma download_files_failed:
  "download_files S w lg n mp sp ps = (r, w2, evs) \<Longrightarrow> download_failed evs = (r \<noteq> None)"
proof (induction ps arbitrary: w evs r w2)
  case Nil
  then show ?case by (auto simp: download_failed_def)
next
  case (Cons p ps)
  obtain f u where p: "p = (f, u)" by (cases p)
  obtain x wa where step: "urlretrieve S w u (os_path_join sp [f]) = (x, wa)"
    by (cases "urlretrieve S w u (os_path_join sp [f])") auto
  show ?case
  proof (cases x)
    case (Some e)
    with Cons.prems step show ?thesis
      by (auto simp: p Let_def download_failed_def)
  next
    case None
    obtain r1 w3 evs1 where rest: "download_files S wa lg n mp sp ps = (r1, w3, evs1)"
      by (cases "download_files S wa lg n mp sp ps") auto
    from Cons.prems step None rest have r: "r = r1"
      and evs: "evs = Retrieve u (os_path_join sp [f]) None
                  # (if lg then [LogInfo (Downloaded n mp)] else []) @ evs1"
      by (auto simp: p Let_def)
    from Cons.IH [OF rest] show ?thesis
      by (auto simp: r evs download_failed_def split: if_splits)
  qed
qed

lemma download_model_None_iff:
  assumes "download_model S w n a mp sp lg = (Inr r, w1, evs)"
  shows "(r = None) = download_failed evs"
proof -
  let ?ev0 = "if mp = None \<and> lg then [LogError (AutoLoading n)] else []"
  have ev0: "\<not> download_failed ?ev0"
    by (simp add: download_failed_def)
  obtain urls where urls: "resolve_model_path S w n a mp = Inr urls"
    using assms by (auto simp: download_model_def Let_def split: sum.splits)
  let ?sp = "case sp of None \<Rightarrow> weights_dir S a n | Some p \<Rightarrow> p"
  obtain wd where dir: "ensure_dir S w ?sp = (None, wd)"
    using assms urls
    by (auto simp: download_model_def Let_def split: sum.splits prod.splits option.splits)
  show ?thesis
  proof (cases "model_exists_in_package S wd n a None (Some (file_names urls))")
    case True
    with assms urls dir show ?thesis
      by (auto simp: download_model_def Let_def download_failed_def split: if_splits)
  next
    case False
    obtain x w2 evs1 where loop:
      "download_files S wd lg n urls ?sp (zip (file_names urls) urls) = (x, w2, evs1)"
      by (cases "download_files S wd lg n urls ?sp (zip (file_names urls) urls)") auto
    note failed = download_files_failed [OF loop]
    show ?thesis
    proof (cases x)
      case None
      with assms urls dir False loop have "r \<noteq> None" and "evs = ?ev0 @ evs1"
        by (auto simp: download_model_def Let_def)
      with failed None show ?thesis
        by (auto simp: download_failed_def split: if_splits)
    next
      case (Some e)
      with assms urls dir False loop have "r = None"
        and "evs = ?ev0 @ evs1 @ (if lg then [LogError (FailedDownload n urls e)] else [])"
        by (auto simp: download_model_def Let_def)
      with failed Some show ?thesis
        by (auto simp: download_failed_def split: if_splits)
    qed
  qed
qed

lemma download_arch_models_collected:
  assumes "download_arch_models S w sp lg arch acc models = (Inr res, w', evs)"
    and "distinct (map fst models)"
    and "fst ` set models \<inter> fst ` set acc = {}"
  shows "\<exists>results. res = acc @ results \<and> models_collected S sp lg arch w models results w'"
  using assms
proof (induction models arbitrary: w acc evs)
  case Nil
  then show ?case
    by (auto intro: models_collected.no_models)
next
  case (Cons m models)
  obtain name data where m: "m = (name, data)" by (cases m)
  from Cons.prems(1) obtain urls where urls: "data ''model_path'' = Some urls"
    by (auto simp: m split: option.splits)
  obtain r1 w1 ev1 where call:
    "download_model S w name arch (Some urls) sp lg = (r1, w1, ev1)"
    by (cases "download_model S w name arch (Some urls) sp lg") auto
  from Cons.prems(1) urls call obtain lp where lp: "r1 = Inr lp"
    by (cases r1) (auto simp: m)
  obtain r2 w2 ev2 where rest:
    "download_arch_models S w1 sp lg arch (AList.update name lp acc) models = (r2, w2, ev2)"
    by (cases "download_arch_models S w1 sp lg arch (AList.update name lp acc) models") auto
  from Cons.prems(1) urls call lp rest have r2: "r2 = Inr res" and w2: "w2 = w'"
    by (auto simp: m)
  from Cons.prems(3) have fresh: "name \<notin> fst ` set acc"
    by (auto simp: m)
  then have upd: "AList.update name lp acc = acc @ [(name, lp)]"
    by (rule update_fresh)
  from Cons.prems(2) have dist: "distinct (map fst models)" and new: "name \<notin> fst ` set models"
    by (auto simp: m)
  from Cons.prems(3) new have disj: "fst ` set models \<inter> fst ` set (acc @ [(name, lp)]) = {}"
    by (auto simp: m)
  from Cons.IH [OF rest [unfolded upd r2 w2] dist disj]
  obtain results where res: "res = (acc @ [(name, lp)]) @ results"
    and coll: "models_collected S sp lg arch w1 models results w'"
    by blast
  have "models_collected S sp lg arch w ((name, data) # models) ((name, lp) # results) w'"
    using urls call [unfolded lp] download_model_None_iff [OF call [unfolded lp]] coll
    by (rule models_collected.next_model)
  with res show ?case
    by (auto simp: m)
qed

lemma download_archs_collected:
  assumes "download_archs S w sp lg acc manifest = (Inr paths, w', evs)"
    and "distinct (map fst manifest)"
    and "fst ` set manifest \<inter> fst ` set acc = {}"
    and "\<forall>(arch, models) \<in> set manifest. distinct (map fst models)"
  shows "\<exists>results. paths = acc @ results \<and> manifest_collected S sp lg w manifest results w'"
  using assms
proof (induction manifest arbitrary: w acc evs)
  case Nil
  then show ?case
    by (auto intro: manifest_collected.no_archs)
next
  case (Cons m manifest)
  obtain arch models where m: "m = (arch, models)" by (cases m)
  obtain r1 w1 ev1 where inner:
    "download_arch_models S w sp lg arch [] models = (r1, w1, ev1)"
    by (cases "download_arch_models S w sp lg arch [] models") auto
  from Cons.prems(1) inner obtain arch_paths where ap: "r1 = Inr arch_paths"
    by (cases r1) (auto simp: m)
  from Cons.prems(3) have fresh: "arch \<notin> fst ` set acc"
    by (auto simp: m)
  then have upd: "AList.update arch arch_paths (AList.update arch [] acc) = acc @ [(arch, arch_paths)]"
    by (simp add: update_fresh update_last)
  obtain r2 w2 ev2 where rest:
    "download_archs S w1 sp lg (acc @ [(arch, arch_paths)]) manifest = (r2, w2, ev2)"
    by (cases "download_archs S w1 sp lg (acc @ [(arch, arch_paths)]) manifest") auto
  from Cons.prems(1) inner ap rest upd have r2: "r2 = Inr paths" and w2: "w2 = w'"
    by (auto simp: m)
  from Cons.prems(4) have dm: "distinct (map fst models)"
    by (auto simp: m)
  from download_arch_models_collected [OF inner [unfolded ap] dm]
  have inner_coll: "models_collected S sp lg arch w models arch_paths w1"
    by simp
  from Cons.prems(2) have dist: "distinct (map fst manifest)" and new: "arch \<notin> fst ` set manifest"
    by (auto simp: m)
  from Cons.prems(3) new have disj:
    "fst ` set manifest \<inter> fst ` set (acc @ [(arch, arch_paths)]) = {}"
    by (auto simp: m)
  from Cons.prems(4) have all: "\<forall>(arch, models) \<in> set manifest. distinct (map fst models)"
    by simp
  from Cons.IH [OF rest [unfolded r2 w2] dist disj all]
  obtain results where paths: "paths = (acc @ [(arch, arch_paths)]) @ results"
    and coll: "manifest_collected S sp lg w1 manifest results w'"
    by blast
  have "manifest_collected S sp lg w ((arch, models) # manifest) ((arch, arch_paths) # results) w'"
    using inner_coll coll by (rule manifest_collected.next_arch)
  with paths show ?case
    by (auto simp: m)
qed

lemma models_collected_keys:
  "models_collected S sp lg arch w models results w' \<Longrightarrow> map fst results = map fst models"
  by (induction rule: models_collected.induct) auto

lemma manifest_collected_keys:
  "manifest_collected S sp lg w manifest paths w' \<Longrightarrow>
   map fst paths = map fst manifest
   \<and> list_all2 (\<lambda>(arch, models) (arch', arch_paths).
                   arch' = arch \<and> map fst arch_paths = map fst models) manifest paths"
  by (induction rule: manifest_collected.induct) (auto simp: models_collected_keys)

text \<open>
  Claim C7.  For a manifest given by the caller (a dictionary: no architecture twice, no
  model name twice under one architecture), when \<open>download_all_models\<close> returns
  \<open>paths\<close>: the architectures of \<open>paths\<close> are those of the manifest, in its order; under
  each architecture the model names are those of the manifest, in its order; and
  \<open>manifest_collected\<close> holds, that is, the value of each model is what
  \<open>download_model\<close> returned for that entry in the world the earlier entries left, and
  it is \<open>None\<close> exactly when a transfer of that download failed.
\<close>

theorem download_all_models_result:
  assumes "download_all_models S w (Some models_json) save_path logger = (Inr paths, w', evs)"
    and "distinct (map fst models_json)"
    and "\<forall>(arch, models) \<in> set models_json. distinct (map fst models)"
  shows "map fst paths = map fst models_json
       \<and> list_all2 (\<lambda>(arch, models) (arch', arch_paths).
                       arch' = arch \<and> map fst arch_paths = map fst models) models_json paths
       \<and> manifest_collected S save_path logger w models_json paths w'"
proof -
  from assms(1) have "download_archs S w save_path logger [] models_json = (Inr paths, w', evs)"
    by (simp add: download_all_models_def)
  from download_archs_collected [OF this assms(2) _ assms(3)]
  have "manifest_collected S save_path logger w models_json paths w'"
    by simp
  with manifest_collected_keys [OF this] show ?thesis
    by simp
qed

theorem download_all_models_result_witness:
  "download_all_models (sample_platform [''https://h/m/b.th''] []) []
     (Some [(''demucs'', [(''m1'', [''model_path'' \<mapsto> [''https://h/m/a.th'']]),
                          (''m2'', [''model_path'' \<mapsto> [''https://h/m/b.th'']])]),
            (''vr'', [])]) None False
   = (Inr [(''demucs'', [(''m1'', Some ''/uvr/models_dir/demucs/weights/m1''), (''m2'', None)]),
           (''vr'', [])],
      [(''/uvr/models_dir/demucs/weights/m2'', Dir),
       (''/uvr/models_dir/demucs/weights/m1/a.th'', File),
       (''/uvr/models_dir/demucs/weights/m1'', Dir)],
      [Retrieve ''https://h/m/a.th'' ''/uvr/models_dir/demucs/weights/m1/a.th'' None,
       Retrieve ''https://h/m/b.th'' ''/uvr/models_dir/demucs/weights/m2/b.th''
         (Some (URLError ''https://h/m/b.th''))])
   \<and> manifest_collected (sample_platform [''https://h/m/b.th''] []) None False []
       [(''demucs'', [(''m1'', [''model_path'' \<mapsto> [''https://h/m/a.th'']]),
                      (''m2'', [''model_path'' \<mapsto> [''https://h/m/b.th'']])]),
        (''vr'', [])]
       [(''demucs'', [(''m1'', Some ''/uvr/models_dir/demucs/weights/m1''), (''m2'', None)]),
        (''vr'', [])]
       [(''/uvr/models_dir/demucs/weights/m2'', Dir),
        (''/uvr/models_dir/demucs/weights/m1/a.th'', File),
        (''/uvr/models_dir/demucs/weights/m1'', Dir)]"
proof -
  let ?P = "sample_platform [''https://h/m/b.th''] [] :: sample_world platform"
  let ?M = "[(''demucs'', [(''m1'', [''model_path'' \<mapsto> [''https://h/m/a.th'']]),
                           (''m2'', [''model_path'' \<mapsto> [''https://h/m/b.th'']])]),
             (''vr'', [])]"
  have name_a: "last (split_on CHR ''/'' ''https://h/m/a.th'') = ''a.th''"
    and name_b: "last (split_on CHR ''/'' ''https://h/m/b.th'') = ''b.th''"
    by simp_all
  have m1: "download_model ?P [] ''m1'' ''demucs'' (Some [''https://h/m/a.th'']) None False
              = (Inr (Some ''/uvr/models_dir/demucs/weights/m1''),
                 [(''/uvr/models_dir/demucs/weights/m1/a.th'', File),
                  (''/uvr/models_dir/demucs/weights/m1'', Dir)],
                 [Retrieve ''https://h/m/a.th'' ''/uvr/models_dir/demucs/weights/m1/a.th'' None])"
    by (simp add: download_model_def resolve_model_path_def weights_dir_def ensure_dir_def
        model_exists_in_package_def file_names_def name_a strip_extension_takeWhile
        os_defs path_defs sample_platform_def Let_def)
  have m2: "download_model ?P
              [(''/uvr/models_dir/demucs/weights/m1/a.th'', File),
               (''/uvr/models_dir/demucs/weights/m1'', Dir)]
              ''m2'' ''demucs'' (Some [''https://h/m/b.th'']) None False
              = (Inr None,
                 [(''/uvr/models_dir/demucs/weights/m2'', Dir),
                  (''/uvr/models_dir/demucs/weights/m1/a.th'', File),
                  (''/uvr/models_dir/demucs/weights/m1'', Dir)],
                 [Retrieve ''https://h/m/b.th'' ''/uvr/models_dir/demucs/weights/m2/b.th''
                    (Some (URLError ''https://h/m/b.th''))])"
    by (simp add: download_model_def resolve_model_path_def weights_dir_def ensure_dir_def
        model_exists_in_package_def file_names_def name_b strip_extension_takeWhile
        os_defs path_defs sample_platform_def Let_def)
  have run: "download_all_models ?P [] (Some ?M) None False
      = (Inr [(''demucs'', [(''m1'', Some ''/uvr/models_dir/demucs/weights/m1''), (''m2'', None)]),
              (''vr'', [])],
         [(''/uvr/models_dir/demucs/weights/m2'', Dir),
          (''/uvr/models_dir/demucs/weights/m1/a.th'', File),
          (''/uvr/models_dir/demucs/weights/m1'', Dir)],
         [Retrieve ''https://h/m/a.th'' ''/uvr/models_dir/demucs/weights/m1/a.th'' None,
          Retrieve ''https://h/m/b.th'' ''/uvr/models_dir/demucs/weights/m2/b.th''
            (Some (URLError ''https://h/m/b.th''))])"
    by (simp add: download_all_models_def m1 m2)
  have archs: "distinct (map fst ?M)"
    by simp
  have names: "\<forall>(arch, models) \<in> set ?M. distinct (map fst models)"
    by simp
  from run download_all_models_result [OF run archs names, THEN conjunct2, THEN conjunct2]
  show ?thesis
    by (rule conjI)
qed

end
